theory Spec2Isabelle
  imports Main "HOL-Library.Word"
begin

section \<open>The gated streaming proxy of \<^verbatim>\<open>api/chat.js\<close>\<close>

text \<open>
  The repository is one asynchronous request handler. It answers a request in stages:
  CORS headers, method and field checks, configuration checks, signature verification,
  the on-chain ownership check, and the streaming proxy to the chat provider.

  The handler is embedded as a function from the world it runs in (configuration and
  the external collaborators it calls) and the request to the final state of the response.
  Every call on a collaborator is recorded, in order, in the \<open>trace\<close> of that state.
  An exception of the source is a value \<open>Inl e\<close>; every \<^verbatim>\<open>try/catch\<close> is a case
  distinction on it. Calls to \<^verbatim>\<open>console\<close> are left out.
\<close>

subsection \<open>Requests\<close>

text \<open>
  The body is typed as the inbound contract types it: each field a string that may be
  absent (\<open>None\<close> stands for \<^verbatim>\<open>undefined\<close> and \<^verbatim>\<open>null\<close>), the token id a
  string or a number, the body itself possibly absent.
\<close>

datatype token_id = TokenStr string | TokenNum int

record nft_context =
  nft_contract :: "string option"
  nft_token_id :: "token_id option"

record body =
  body_address :: "string option"
  body_signature :: "string option"
  body_input :: "string option"
  body_context :: "nft_context option"

record request =
  req_method :: string
  req_origin :: "string option"
  req_body :: "body option"

text \<open>\<^verbatim>\<open>req.body || {}\<close>: the object the fields are read from.\<close>

definition no_fields :: body where
  "no_fields = \<lparr>body_address = None, body_signature = None, body_input = None,
                 body_context = None\<rparr>"

definition destructure :: "body option \<Rightarrow> body" where
  "destructure b = (case b of None \<Rightarrow> no_fields | Some x \<Rightarrow> x)"

text \<open>JavaScript truthiness of an optional string: absent and empty are falsy.\<close>

definition truthy :: "string option \<Rightarrow> bool" where
  "truthy v = (case v of None \<Rightarrow> False | Some s \<Rightarrow> s \<noteq> [])"

definition str :: "string option \<Rightarrow> string" where
  "str v = (case v of None \<Rightarrow> [] | Some s \<Rightarrow> s)"

subsection \<open>Strings and bytes of the platform\<close>

text \<open>
  \<^verbatim>\<open>String.prototype.toLowerCase\<close> on the ASCII letters; other characters are kept.
  Wallet addresses are hexadecimal strings.
\<close>

definition lower_char :: "char \<Rightarrow> char" where
  "lower_char c =
     (let n = (of_char c :: nat) in if 65 \<le> n \<and> n \<le> 90 then char_of (n + 32) else c)"

definition toLowerCase :: "string \<Rightarrow> string" where
  "toLowerCase s = map lower_char s"

text \<open>\<^verbatim>\<open>Array.prototype.join\<close> and \<^verbatim>\<open>String.prototype.split\<close> with a one-character separator.\<close>

fun join :: "string \<Rightarrow> string list \<Rightarrow> string" where
  "join sep [] = []"
| "join sep [x] = x"
| "join sep (x # y # ys) = x @ sep @ join sep (y # ys)"

fun split :: "char \<Rightarrow> string \<Rightarrow> string list" where
  "split sep [] = [[]]"
| "split sep (c # cs) =
     (if c = sep then [] # split sep cs
      else (case split sep cs of [] \<Rightarrow> [[c]] | x # xs \<Rightarrow> (c # x) # xs))"

type_synonym byte = "8 word"

text \<open>A JavaScript string produced by the decoder, as its list of Unicode code points.\<close>

type_synonym codepoints = "nat list"

text \<open>
  \<^verbatim>\<open>new TextDecoder().decode(value)\<close>: the UTF-8 decoder of the Encoding Standard, run on
  one chunk from the idle state and flushed at the end of the chunk (the call passes no
  \<^verbatim>\<open>stream\<close> option). A malformed or incomplete sequence yields U+FFFD; a leading
  byte order mark is dropped.
\<close>

record utf8_state =
  code_point :: nat
  bytes_seen :: nat
  bytes_needed :: nat
  lower_boundary :: nat
  upper_boundary :: nat

definition utf8_idle :: utf8_state where
  "utf8_idle = \<lparr>code_point = 0, bytes_seen = 0, bytes_needed = 0,
                 lower_boundary = 0x80, upper_boundary = 0xBF\<rparr>"

text \<open>One byte read in the idle state: the code points emitted and the state after it.\<close>

definition utf8_first :: "nat \<Rightarrow> codepoints \<times> utf8_state" where
  "utf8_first b =
     (if b \<le> 0x7F then ([b], utf8_idle)
      else if 0xC2 \<le> b \<and> b \<le> 0xDF then
        ([], utf8_idle\<lparr>bytes_needed := 1, code_point := b mod 32\<rparr>)
      else if 0xE0 \<le> b \<and> b \<le> 0xEF then
        ([], utf8_idle\<lparr>lower_boundary := (if b = 0xE0 then 0xA0 else 0x80),
                       upper_boundary := (if b = 0xED then 0x9F else 0xBF),
                       bytes_needed := 2, code_point := b mod 16\<rparr>)
      else if 0xF0 \<le> b \<and> b \<le> 0xF4 then
        ([], utf8_idle\<lparr>lower_boundary := (if b = 0xF0 then 0x90 else 0x80),
                       upper_boundary := (if b = 0xF4 then 0x8F else 0xBF),
                       bytes_needed := 3, code_point := b mod 8\<rparr>)
      else ([0xFFFD], utf8_idle))"

fun utf8_run :: "utf8_state \<Rightarrow> nat list \<Rightarrow> codepoints" where
  "utf8_run s [] = (if bytes_needed s \<noteq> 0 then [0xFFFD] else [])"
| "utf8_run s (b # bs) =
     (if bytes_needed s = 0 then
        fst (utf8_first b) @ utf8_run (snd (utf8_first b)) bs
      else if b < lower_boundary s \<or> upper_boundary s < b then
        0xFFFD # fst (utf8_first b) @ utf8_run (snd (utf8_first b)) bs
      else if bytes_seen s + 1 \<noteq> bytes_needed s then
        utf8_run (s\<lparr>code_point := code_point s * 64 + b mod 64,
                     bytes_seen := bytes_seen s + 1,
                     lower_boundary := 0x80, upper_boundary := 0xBF\<rparr>) bs
      else (code_point s * 64 + b mod 64) # utf8_run utf8_idle bs)"

definition decode :: "byte list \<Rightarrow> codepoints" where
  "decode v =
     (case utf8_run utf8_idle (map unat v) of
        [] \<Rightarrow> []
      | c # cs \<Rightarrow> if c = 0xFEFF then cs else c # cs)"

text \<open>The bytes \<^verbatim>\<open>res.write\<close> puts on the wire for a string: its UTF-8 encoding.\<close>

definition utf8_bytes :: "nat \<Rightarrow> byte list" where
  "utf8_bytes c =
     (if c < 0x80 then [of_nat c]
      else if c < 0x800 then [of_nat (0xC0 + c div 64), of_nat (0x80 + c mod 64)]
      else if c < 0x10000 then
        [of_nat (0xE0 + c div 4096), of_nat (0x80 + c div 64 mod 64), of_nat (0x80 + c mod 64)]
      else
        [of_nat (0xF0 + c div 262144), of_nat (0x80 + c div 4096 mod 64),
         of_nat (0x80 + c div 64 mod 64), of_nat (0x80 + c mod 64)])"

definition utf8_encode :: "codepoints \<Rightarrow> byte list" where
  "utf8_encode cs = concat (map utf8_bytes cs)"

subsection \<open>Collaborators\<close>

datatype error = Error string

text \<open>
  \<^verbatim>\<open>BigNumber.toNumber\<close> of ethers: the value as a JavaScript number when it is a safe
  integer (at most \<open>2^53 - 1\<close>), an overflow error otherwise.
\<close>

definition MAX_SAFE_INTEGER :: nat where
  "MAX_SAFE_INTEGER = 2 ^ 53 - 1"

definition toNumber :: "256 word \<Rightarrow> error + nat" where
  "toNumber bal =
     (if unat bal \<le> MAX_SAFE_INTEGER then Inr (unat bal) else Inl (Error ''overflow''))"

text \<open>One result of \<^verbatim>\<open>reader.read()\<close>: a rejection, \<^verbatim>\<open>done\<close>, or a chunk.\<close>

datatype read_result = ReadError error | ReadDone | ReadValue "byte list"

text \<open>
  The body of a response of \<^verbatim>\<open>node-fetch\<close>, the \<^verbatim>\<open>fetch\<close> that line 2 imports: a
  Node.js \<^verbatim>\<open>Readable\<close>, here with the chunks it holds. Such a stream has no
  \<^verbatim>\<open>getReader\<close> method, so the call \<^verbatim>\<open>oaResp.body.getReader()\<close> of line 145 throws a
  \<^verbatim>\<open>TypeError\<close> whatever the body holds. A reader, had the call returned one, is the
  results of the successive calls of \<^verbatim>\<open>reader.read()\<close>.
\<close>

datatype body_stream = Readable "byte list list"

definition getReader :: "body_stream \<Rightarrow> error + (nat \<Rightarrow> read_result)" where
  "getReader b = Inl (Error ''oaResp.body.getReader is not a function'')"

text \<open>
  The provider's response: its status, its body (absent when the response has none), and
  what \<^verbatim>\<open>text()\<close> resolves to.
\<close>

record response =
  resp_status :: nat
  resp_body :: "body_stream option"
  resp_text :: "error + string"

text \<open>\<^verbatim>\<open>Response.ok\<close>: the status is in the range 200 to 299.\<close>

definition ok :: "response \<Rightarrow> bool" where
  "ok r = (200 \<le> resp_status r \<and> resp_status r \<le> 299)"

text \<open>
  The world of one request: the process environment and the answers of the collaborators.
  \<open>verifyMessage\<close> takes the message and the signature; \<open>JsonRpcProvider\<close> and \<open>Contract\<close>
  are the two constructors, given the URL and the contract address; \<open>ownerOf\<close> takes the
  contract address and the token id, \<open>balanceOf\<close> the contract address and the wallet;
  \<open>fetch\<close> takes the bearer key and the prompt sent to the provider. \<open>write_throws k\<close> says
  whether the \<open>k\<close>-th call of \<^verbatim>\<open>res.write\<close> (from 0) throws.
\<close>

record world =
  env_ALLOWED_ORIGINS :: "string option"
  env_OPENAI_API_KEY :: "string option"
  env_RPC_URL :: "string option"
  verifyMessage :: "string \<Rightarrow> string \<Rightarrow> error + string"
  JsonRpcProvider :: "string \<Rightarrow> error + unit"
  Contract :: "string \<Rightarrow> error + unit"
  ownerOf :: "string \<Rightarrow> token_id \<Rightarrow> error + string"
  balanceOf :: "string \<Rightarrow> string \<Rightarrow> error + 256 word"
  fetch :: "string \<Rightarrow> string \<Rightarrow> error + response"
  write_throws :: "nat \<Rightarrow> bool"

subsection \<open>The response under construction\<close>

datatype event =
    VerifyMessage string string
  | NewProvider string
  | NewContract string
  | OwnerOf string token_id
  | BalanceOf string string
  | Fetch string string
  | ReadText
  | Read
  | Write codepoints

datatype json_body = ErrorBody string | UpstreamFailure string nat string

text \<open>
  \<open>statusCode\<close> is the status line the caller gets, \<open>sent\<close> the chunks written to the
  caller so far (as bytes), \<open>reply\<close> the JSON document of an error response.
\<close>

record state =
  statusCode :: nat
  headers :: "(string \<times> string) list"
  headersSent :: bool
  sent :: "byte list list"
  reply :: "json_body option"
  ended :: bool
  writeCalls :: nat
  trace :: "event list"

definition initial :: state where
  "initial = \<lparr>statusCode = 200, headers = [], headersSent = False, sent = [],
               reply = None, ended = False, writeCalls = 0, trace = []\<rparr>"

definition call :: "event \<Rightarrow> state \<Rightarrow> state" where
  "call e st = st\<lparr>trace := trace st @ [e]\<rparr>"

definition setHeader :: "string \<Rightarrow> string \<Rightarrow> state \<Rightarrow> state" where
  "setHeader name v st = st\<lparr>headers := (name, v) # filter (\<lambda>h. fst h \<noteq> name) (headers st)\<rparr>"

definition getHeader :: "string \<Rightarrow> state \<Rightarrow> string option" where
  "getHeader name st = map_of (headers st) name"

text \<open>
  \<^verbatim>\<open>res.status(code).end()\<close> and \<^verbatim>\<open>res.status(code).json(b)\<close>. The JSON reply sets
  the content type only when none has been set before.
\<close>

definition end_with :: "nat \<Rightarrow> state \<Rightarrow> state" where
  "end_with code st = st\<lparr>statusCode := code, headersSent := True, ended := True\<rparr>"

definition json :: "nat \<Rightarrow> json_body \<Rightarrow> state \<Rightarrow> state" where
  "json code b st =
     (if getHeader ''Content-Type'' st = None
      then setHeader ''Content-Type'' ''application/json; charset=utf-8'' st else st)
       \<lparr>statusCode := code, headersSent := True, reply := Some b, ended := True\<rparr>"

text \<open>
  \<^verbatim>\<open>res.write(chunk)\<close>: the call is recorded and counted; when it throws nothing
  reaches the caller, otherwise the headers go out with the first chunk. \<^verbatim>\<open>res.end()\<close>
  closes the response.
\<close>

definition res_write :: "world \<Rightarrow> codepoints \<Rightarrow> state \<Rightarrow> error option \<times> state" where
  "res_write w chunk st =
     (let st1 = (call (Write chunk) st)\<lparr>writeCalls := writeCalls st + 1\<rparr> in
      if write_throws w (writeCalls st) then (Some (Error ''write failed''), st1)
      else (None, st1\<lparr>headersSent := True, sent := sent st1 @ [utf8_encode chunk]\<rparr>))"

definition res_end :: "state \<Rightarrow> state" where
  "res_end st = st\<lparr>headersSent := True, ended := True\<rparr>"

subsection \<open>The handler, stage by stage\<close>

text \<open>A stage either answers the request or hands the response on to the next stage.\<close>

datatype flow = Respond state | Continue state

definition ALLOWED_DEFAULT :: "string list" where
  "ALLOWED_DEFAULT =
     [''https://cyberpetsreboot.xyz'', ''https://digitalknuckles.github.io'',
      ''http://localhost:3000'']"

text \<open>Lines 13 to 19: the CORS headers.\<close>

definition cors :: "world \<Rightarrow> request \<Rightarrow> state \<Rightarrow> state" where
  "cors w req st =
     (let allowedOrigins =
            split CHR '','' (if truthy (env_ALLOWED_ORIGINS w) then str (env_ALLOWED_ORIGINS w)
                             else join '','' ALLOWED_DEFAULT);
          origin = req_origin req;
          st1 = (if truthy origin \<and> str origin \<in> set allowedOrigins
                 then setHeader ''Access-Control-Allow-Origin'' (str origin) st else st);
          st2 = setHeader ''Access-Control-Allow-Methods'' ''GET,POST,OPTIONS'' st1
      in setHeader ''Access-Control-Allow-Headers'' ''Content-Type,Authorization'' st2)"

text \<open>Lines 48 to 58: the signature over the reconstructed message.\<close>

definition verify_signature :: "world \<Rightarrow> string \<Rightarrow> string \<Rightarrow> string \<Rightarrow> state \<Rightarrow> flow" where
  "verify_signature w address signature input st =
     (let expectedMessage = ''I am requesting an AI response: '' @ input;
          st1 = call (VerifyMessage expectedMessage signature) st
      in case verifyMessage w expectedMessage signature of
           Inl err \<Rightarrow> Respond (json 400 (ErrorBody ''Invalid signature'') st1)
         | Inr recovered \<Rightarrow>
             if toLowerCase recovered \<noteq> toLowerCase address
             then Respond (json 401 (ErrorBody ''Signature does not match address'') st1)
             else Continue st1)"

text \<open>The configured read-node URL (line 42) and the fields of the request (line 32).\<close>

definition RPC_URL :: "world \<Rightarrow> string" where
  "RPC_URL w =
     (if truthy (env_RPC_URL w) then str (env_RPC_URL w) else ''https://cloudflare-eth.com'')"

definition address :: "request \<Rightarrow> string" where
  "address req = str (body_address (destructure (req_body req)))"

definition signature :: "request \<Rightarrow> string" where
  "signature req = str (body_signature (destructure (req_body req)))"

definition input :: "request \<Rightarrow> string" where
  "input req = str (body_input (destructure (req_body req)))"

text \<open>Lines 13 to 58: everything before the ownership check.\<close>

definition authenticate :: "world \<Rightarrow> request \<Rightarrow> flow" where
  "authenticate w req =
     (let st = cors w req initial in
      if req_method req = ''OPTIONS'' then Respond (end_with 200 st)
      else if req_method req \<noteq> ''POST'' then
        Respond (json 405 (ErrorBody ''Method not allowed'') st)
      else
        let b = destructure (req_body req) in
        if \<not> truthy (body_address b) \<or> \<not> truthy (body_signature b) \<or> \<not> truthy (body_input b)
        then Respond (json 400
               (ErrorBody ''Missing required fields: address, signature, input'') st)
        else if \<not> truthy (env_OPENAI_API_KEY w) then
          Respond (json 500 (ErrorBody ''Server misconfigured (missing OPENAI_API_KEY)'') st)
        else if RPC_URL w = [] then
          Respond (json 500 (ErrorBody ''Server misconfigured (missing RPC_URL)'') st)
        else verify_signature w (address req) (signature req) (input req) st)"

text \<open>
  Lines 65 and 66: \<^verbatim>\<open>(context && context.nft_contract) || null\<close> and
  \<^verbatim>\<open>(context && context.nft_token_id) ?? null\<close>.
\<close>

definition nftContract :: "request \<Rightarrow> string option" where
  "nftContract req =
     (case body_context (destructure (req_body req)) of
        None \<Rightarrow> None
      | Some c \<Rightarrow> if truthy (nft_contract c) then nft_contract c else None)"

definition nftTokenId :: "request \<Rightarrow> token_id option" where
  "nftTokenId req =
     (case body_context (destructure (req_body req)) of
        None \<Rightarrow> None
      | Some c \<Rightarrow> nft_token_id c)"

text \<open>
  Lines 82 to 90: the token-owner lookup, made only when a token id is given. A lookup that
  throws leaves \<open>owns\<close> false.
\<close>

definition owner_step :: "world \<Rightarrow> string \<Rightarrow> string \<Rightarrow> token_id option \<Rightarrow> state \<Rightarrow> bool \<times> state" where
  "owner_step w contract addr tokenId st =
     (case tokenId of
        None \<Rightarrow> (False, st)
      | Some t \<Rightarrow>
          let st1 = call (OwnerOf contract t) st in
          (case ownerOf w contract t of
             Inl err \<Rightarrow> (False, st1)
           | Inr owner \<Rightarrow> (owner \<noteq> [] \<and> toLowerCase owner = toLowerCase addr, st1)))"

text \<open>
  Lines 91 to 99: the balance lookup, made only when \<open>owns\<close> is still false. The lookup
  returns a \<^verbatim>\<open>BigNumber\<close>, an object (truthy) with a \<^verbatim>\<open>toNumber\<close> method, so the test of
  line 94 is \<^verbatim>\<open>bal.toNumber() > 0\<close>. A lookup or a conversion that throws leaves
  \<open>owns\<close> false.
\<close>

definition balance_step :: "world \<Rightarrow> string \<Rightarrow> string \<Rightarrow> bool \<Rightarrow> state \<Rightarrow> bool \<times> state" where
  "balance_step w contract addr owns st =
     (if \<not> owns then
        let st1 = call (BalanceOf contract addr) st in
        (case balanceOf w contract addr of
           Inl err \<Rightarrow> (owns, st1)
         | Inr bal \<Rightarrow>
             (case toNumber bal of
                Inl err \<Rightarrow> (owns, st1)
              | Inr n \<Rightarrow> (0 < n, st1)))
      else (owns, st))"

text \<open>Lines 65 to 106: the ownership check.\<close>

definition ownership_check :: "world \<Rightarrow> request \<Rightarrow> state \<Rightarrow> flow" where
  "ownership_check w req st =
     (case nftContract req of
        None \<Rightarrow> Respond (json 400 (ErrorBody ''Missing nft_contract in context'') st)
      | Some contract \<Rightarrow>
          let st1 = call (NewProvider (RPC_URL w)) st in
          (case JsonRpcProvider w (RPC_URL w) of
             Inl err \<Rightarrow> Respond (json 500 (ErrorBody ''Failed to verify ownership'') st1)
           | Inr provider \<Rightarrow>
               let st2 = call (NewContract contract) st1 in
               (case Contract w contract of
                  Inl err \<Rightarrow> Respond (json 500 (ErrorBody ''Failed to verify ownership'') st2)
                | Inr c \<Rightarrow>
                    let r1 = owner_step w contract (address req) (nftTokenId req) st2;
                        r2 = balance_step w contract (address req) (fst r1) (snd r1)
                    in if \<not> fst r2
                       then Respond (json 403
                              (ErrorBody ''NFT ownership check failed - access denied'') (snd r2))
                       else Continue (snd r2))))"

text \<open>Lines 13 to 106: every stage before the proxy.\<close>

definition gate :: "world \<Rightarrow> request \<Rightarrow> flow" where
  "gate w req =
     (case authenticate w req of
        Respond s \<Rightarrow> Respond s
      | Continue st \<Rightarrow> ownership_check w req st)"

text \<open>
  Lines 149 to 155, the helper \<^verbatim>\<open>write\<close> (a keyword of Isabelle, hence the longer
  name): a failed write is caught and logged, nothing else.
\<close>

definition forward_write :: "world \<Rightarrow> codepoints \<Rightarrow> state \<Rightarrow> state" where
  "forward_write w chunk st = snd (res_write w chunk st)"

text \<open>
  Lines 158 to 164, the read loop, from the \<open>i\<close>-th call of \<^verbatim>\<open>reader.read()\<close> on. The
  loop ends when the reader reports \<^verbatim>\<open>done\<close> or a read is rejected; an upstream that
  never does either keeps it running, which is the value \<open>None\<close>.
\<close>

datatype loop_end = Finished state | Failed error state

partial_function (option) read_loop :: "world \<Rightarrow> (nat \<Rightarrow> read_result) \<Rightarrow> nat \<Rightarrow> state \<Rightarrow> loop_end option" where
  "read_loop w reader i st =
     (case reader i of
        ReadError err \<Rightarrow> Some (Failed err (call Read st))
      | ReadDone \<Rightarrow> Some (Finished (call Read st))
      | ReadValue v \<Rightarrow> read_loop w reader (Suc i) (forward_write w (decode v) (call Read st)))"

declare read_loop.simps [code]

text \<open>
  Lines 170 to 174, the last \<^verbatim>\<open>catch\<close>: a 500 reply is attempted; once the headers are
  out that attempt throws, which is swallowed, and the response is left as it is. A reply
  that goes out keeps the content type set at line 140, if that line was reached.
\<close>

definition streaming_error :: "state \<Rightarrow> state" where
  "streaming_error st =
     (if headersSent st then st else json 500 (ErrorBody ''Internal server error'') st)"

text \<open>Lines 132 to 137: the provider answered without success, or without a body.\<close>

definition upstream_failed :: "response \<Rightarrow> state \<Rightarrow> state" where
  "upstream_failed oaResp st =
     (let st1 = call ReadText st;
          body_text = (case resp_text oaResp of Inl err \<Rightarrow> ''<no-body>'' | Inr t \<Rightarrow> t)
      in json 500 (UpstreamFailure ''OpenAI request failed'' (resp_status oaResp) body_text) st1)"

text \<open>Lines 140 to 142: the headers of the event stream.\<close>

definition stream_headers :: "state \<Rightarrow> state" where
  "stream_headers st =
     setHeader ''Connection'' ''keep-alive''
       (setHeader ''Cache-Control'' ''no-cache, no-transform''
         (setHeader ''Content-Type'' ''text/event-stream; charset=utf-8'' st))"

text \<open>
  Lines 111 to 174: the proxy to the chat provider. The headers of the stream are set
  (lines 140 to 142) before the reader is asked for (line 145); an exception anywhere goes
  to the last \<^verbatim>\<open>catch\<close>.
\<close>

definition proxy :: "world \<Rightarrow> string \<Rightarrow> string \<Rightarrow> state \<Rightarrow> state option" where
  "proxy w key prompt st =
     (let st1 = call (Fetch key prompt) st in
      case fetch w key prompt of
        Inl err \<Rightarrow> Some (streaming_error st1)
      | Inr oaResp \<Rightarrow>
          (case resp_body oaResp of
             None \<Rightarrow> Some (upstream_failed oaResp st1)
           | Some b \<Rightarrow>
               if \<not> ok oaResp then Some (upstream_failed oaResp st1)
               else
                 (case getReader b of
                    Inl err \<Rightarrow> Some (streaming_error (stream_headers st1))
                  | Inr reader \<Rightarrow>
                      (case read_loop w reader 0 (stream_headers st1) of
                         None \<Rightarrow> None
                       | Some (Failed err st2) \<Rightarrow> Some (streaming_error st2)
                       | Some (Finished st2) \<Rightarrow>
                           (case res_write w [10, 10] st2 of
                              (Some err, st3) \<Rightarrow> Some (streaming_error st3)
                            | (None, st3) \<Rightarrow> Some (res_end st3))))))"

text \<open>The handler: the gate, then the proxy with the configured key and the request's input.\<close>

definition handler :: "world \<Rightarrow> request \<Rightarrow> state option" where
  "handler w req =
     (case gate w req of
        Respond s \<Rightarrow> Some s
      | Continue st \<Rightarrow> proxy w (str (env_OPENAI_API_KEY w)) (input req) st)"


subsection \<open>Ownership facts and readers\<close>

text \<open>
  The ownership facts in the words of the specification: the token-owner lookup returned
  the claimed address (compared case-insensitively), the balance lookup returned a value
  greater than zero.
\<close>

definition owner_matched :: "world \<Rightarrow> request \<Rightarrow> bool" where
  "owner_matched w req =
     (case nftContract req of
        None \<Rightarrow> False
      | Some c \<Rightarrow>
          (case nftTokenId req of
             None \<Rightarrow> False
           | Some t \<Rightarrow>
               (case ownerOf w c t of
                  Inl err \<Rightarrow> False
                | Inr owner \<Rightarrow> toLowerCase owner = toLowerCase (address req))))"

definition balance_positive :: "world \<Rightarrow> request \<Rightarrow> bool" where
  "balance_positive w req =
     (case nftContract req of
        None \<Rightarrow> False
      | Some c \<Rightarrow>
          (case balanceOf w c (address req) of
             Inl err \<Rightarrow> False
           | Inr bal \<Rightarrow> 0 < bal))"

text \<open>The state after the two lookups.\<close>

definition looked_up :: "world \<Rightarrow> request \<Rightarrow> string \<Rightarrow> state \<Rightarrow> state" where
  "looked_up w req c st =
     snd (balance_step w c (address req)
            (fst (owner_step w c (address req) (nftTokenId req)
                    (call (NewContract c) (call (NewProvider (RPC_URL w)) st))))
            (snd (owner_step w c (address req) (nftTokenId req)
                    (call (NewContract c) (call (NewProvider (RPC_URL w)) st)))))"


text \<open>
  A reader that delivers the chunks \<open>vs\<close> from its \<open>i\<close>-th read on and then reports
  \<^verbatim>\<open>done\<close>, and the state the read loop leaves behind on such a reader.
\<close>

fun delivers :: "(nat \<Rightarrow> read_result) \<Rightarrow> nat \<Rightarrow> byte list list \<Rightarrow> bool" where
  "delivers reader i [] = (reader i = ReadDone)"
| "delivers reader i (v # vs) = (reader i = ReadValue v \<and> delivers reader (Suc i) vs)"

definition forward_all :: "world \<Rightarrow> byte list list \<Rightarrow> state \<Rightarrow> state" where
  "forward_all w vs st =
     call Read (fold (\<lambda>v s. forward_write w (decode v) (call Read s)) vs st)"

text \<open>The events of the proxy stage: calls on the chat provider and writes to the caller.\<close>

fun is_upstream :: "event \<Rightarrow> bool" where
  "is_upstream (Fetch k p) = True"
| "is_upstream ReadText = True"
| "is_upstream Read = True"
| "is_upstream (Write c) = True"
| "is_upstream e = False"

fun state_of :: "flow \<Rightarrow> state" where
  "state_of (Respond s) = s"
| "state_of (Continue s) = s"

subsection \<open>A sample world\<close>

text \<open>
  A world to run the handler in. Two wallets can sign; token 7 belongs to the first and
  token 8 to the second; the balance depends on the contract asked; the provider answers
  the prompt \<open>fail\<close> with 503 and any other with 200, with a body of two chunks.
\<close>

definition sample_body :: body_stream where
  "sample_body = Readable [[0x68, 0x69], [0x21]]"

definition sample_world :: world where
  "sample_world =
     \<lparr>env_ALLOWED_ORIGINS = None, env_OPENAI_API_KEY = Some ''sk-sample'', env_RPC_URL = None,
      verifyMessage = (\<lambda>m s. if s = ''sig-alice'' then Inr ''0xA11CE''
                             else if s = ''sig-bob'' then Inr ''0xB0B''
                             else Inl (Error ''invalid signature'')),
      JsonRpcProvider = (\<lambda>url. Inr ()),
      Contract = (\<lambda>c. if c = ''nowhere'' then Inl (Error ''invalid address'') else Inr ()),
      ownerOf = (\<lambda>c t. if t = TokenNum 7 then Inr ''0xA11CE''
                       else if t = TokenNum 8 then Inr ''0xB0B''
                       else Inl (Error ''nonexistent token'')),
      balanceOf = (\<lambda>c a. if c = ''0xdown'' then Inl (Error ''timeout'')
                         else if c = ''0xerc20'' then Inr (2 ^ 53)
                         else if c = ''0xempty'' then Inr 0
                         else Inr 2),
      fetch = (\<lambda>k p. if p = ''fail''
                     then Inr \<lparr>resp_status = 503, resp_body = Some sample_body,
                               resp_text = Inr ''overloaded''\<rparr>
                     else Inr \<lparr>resp_status = 200, resp_body = Some sample_body,
                               resp_text = Inr []\<rparr>),
      write_throws = (\<lambda>k. False)\<rparr>"

text \<open>A POST request with all fields given.\<close>

definition post :: "string \<Rightarrow> string \<Rightarrow> string \<Rightarrow> string \<Rightarrow> token_id option \<Rightarrow> request" where
  "post a s i c t =
     \<lparr>req_method = ''POST'', req_origin = None,
      req_body = Some \<lparr>body_address = Some a, body_signature = Some s, body_input = Some i,
                       body_context = Some \<lparr>nft_contract = Some c, nft_token_id = t\<rparr>\<rparr>\<rparr>"

section \<open>Properties\<close>

subsection \<open>The response record\<close>


lemma call_simps [simp]:
  "statusCode (call e st) = statusCode st" "headers (call e st) = headers st"
  "headersSent (call e st) = headersSent st" "sent (call e st) = sent st"
  "reply (call e st) = reply st" "ended (call e st) = ended st"
  "writeCalls (call e st) = writeCalls st" "trace (call e st) = trace st @ [e]"
  by (simp_all add: call_def)

lemma setHeader_simps [simp]:
  "statusCode (setHeader n v st) = statusCode st"
  "headersSent (setHeader n v st) = headersSent st" "sent (setHeader n v st) = sent st"
  "reply (setHeader n v st) = reply st" "ended (setHeader n v st) = ended st"
  "writeCalls (setHeader n v st) = writeCalls st" "trace (setHeader n v st) = trace st"
  by (simp_all add: setHeader_def)

lemma map_of_filter_other:
  "n \<noteq> n' \<Longrightarrow> map_of (filter (\<lambda>h. fst h \<noteq> n') xs) n = map_of xs n"
  by (induction xs) auto

lemma getHeader_setHeader [simp]:
  "getHeader n (setHeader n' v st) = (if n = n' then Some v else getHeader n st)"
  by (simp add: getHeader_def setHeader_def map_of_filter_other)

lemma json_simps [simp]:
  "statusCode (json c b st) = c" "headersSent (json c b st) = True" "sent (json c b st) = sent st"
  "reply (json c b st) = Some b" "ended (json c b st) = True"
  "writeCalls (json c b st) = writeCalls st" "trace (json c b st) = trace st"
  "getHeader ''Content-Type'' (json c b st) =
     (case getHeader ''Content-Type'' st of
        None \<Rightarrow> Some ''application/json; charset=utf-8'' | Some v \<Rightarrow> Some v)"
  by (auto simp add: json_def getHeader_def setHeader_def)

lemma end_with_simps [simp]:
  "statusCode (end_with c st) = c" "sent (end_with c st) = sent st"
  "reply (end_with c st) = reply st" "trace (end_with c st) = trace st"
  by (simp_all add: end_with_def)

lemma cors_simps [simp]:
  "statusCode (cors w req st) = statusCode st"
  "headersSent (cors w req st) = headersSent st" "sent (cors w req st) = sent st"
  "reply (cors w req st) = reply st" "ended (cors w req st) = ended st"
  "writeCalls (cors w req st) = writeCalls st" "trace (cors w req st) = trace st"
  by (simp_all add: cors_def Let_def)

lemma initial_simps [simp]:
  "statusCode initial = 200" "headersSent initial = False" "sent initial = []"
  "reply initial = None" "ended initial = False" "writeCalls initial = 0" "trace initial = []"
  "headers initial = []"
  by (simp_all add: initial_def)

lemma toLowerCase_Nil [simp]:
  "toLowerCase s = [] \<longleftrightarrow> s = []" "[] = toLowerCase s \<longleftrightarrow> s = []"
  "toLowerCase [] = []"
  by (auto simp add: toLowerCase_def)

lemma RPC_URL_nonempty: "RPC_URL w \<noteq> []"
  by (simp add: RPC_URL_def truthy_def str_def split: option.splits)

lemma truthy_str: "truthy v \<Longrightarrow> v = Some (str v) \<and> str v \<noteq> []"
  by (simp add: truthy_def str_def split: option.splits)

lemma authenticate_pass:
  assumes "req_method req = ''POST''"
    and "truthy (body_address (destructure (req_body req)))"
    and "truthy (body_signature (destructure (req_body req)))"
    and "truthy (body_input (destructure (req_body req)))"
    and "truthy (env_OPENAI_API_KEY w)"
  shows "authenticate w req =
           verify_signature w (address req) (signature req) (input req) (cors w req initial)"
  using assms by (simp add: authenticate_def Let_def RPC_URL_nonempty)

lemma authenticate_Continue:
  assumes "authenticate w req = Continue st"
  shows "req_method req = ''POST''"
    and "truthy (body_address (destructure (req_body req)))"
    and "truthy (body_signature (destructure (req_body req)))"
    and "truthy (body_input (destructure (req_body req)))"
    and "truthy (env_OPENAI_API_KEY w)"
    and "verify_signature w (address req) (signature req) (input req) (cors w req initial)
           = Continue st"
  using assms by (auto simp add: authenticate_def Let_def split: if_splits)

lemma verify_signature_Continue:
  assumes "verify_signature w a s i st0 = Continue st"
  shows "\<exists>recovered. verifyMessage w (''I am requesting an AI response: '' @ i) s = Inr recovered
           \<and> toLowerCase recovered = toLowerCase a"
    and "st = call (VerifyMessage (''I am requesting an AI response: '' @ i) s) st0"
  using assms by (auto simp add: verify_signature_def Let_def split: sum.splits if_splits)

lemma authenticate_state:
  assumes "authenticate w req = Continue st"
  shows "st = call (VerifyMessage (''I am requesting an AI response: '' @ input req) (signature req))
                (cors w req initial)"
    and "address req \<noteq> []"
proof -
  show "st = call (VerifyMessage (''I am requesting an AI response: '' @ input req) (signature req))
                (cors w req initial)"
    using authenticate_Continue(6) [OF assms] by (rule verify_signature_Continue(2))
  show "address req \<noteq> []"
    using authenticate_Continue(2) [OF assms] by (simp add: address_def truthy_str)
qed

lemma owner_step_fst:
  "fst (owner_step w c a t st) =
     (case t of None \<Rightarrow> False
      | Some x \<Rightarrow> (case ownerOf w c x of Inl err \<Rightarrow> False
                   | Inr owner \<Rightarrow> owner \<noteq> [] \<and> toLowerCase owner = toLowerCase a))"
  by (simp add: owner_step_def Let_def split: option.splits sum.splits)

lemma owner_step_snd:
  "snd (owner_step w c a t st) = (case t of None \<Rightarrow> st | Some x \<Rightarrow> call (OwnerOf c x) st)"
  by (simp add: owner_step_def Let_def split: option.splits sum.splits)

lemma balance_step_fst:
  "fst (balance_step w c a owns st) =
     (owns \<or> (case balanceOf w c a of Inl err \<Rightarrow> False
              | Inr bal \<Rightarrow> 0 < unat bal \<and> unat bal \<le> MAX_SAFE_INTEGER))"
  by (simp add: balance_step_def Let_def toNumber_def split: sum.splits)

lemma balance_step_snd:
  "snd (balance_step w c a owns st) = (if owns then st else call (BalanceOf c a) st)"
  by (simp add: balance_step_def Let_def split: sum.splits)

lemma owner_matched_iff:
  assumes "nftContract req = Some c" and "address req \<noteq> []"
  shows "fst (owner_step w c (address req) (nftTokenId req) st) = owner_matched w req"
  using assms
  by (auto simp add: owner_step_fst owner_matched_def split: option.splits sum.splits)

lemma ownership_check_decides:
  assumes "nftContract req = Some c" and "address req \<noteq> []"
    and "JsonRpcProvider w (RPC_URL w) = Inr u" and "Contract w c = Inr u'"
  shows "ownership_check w req st =
     (if owner_matched w req
         \<or> (case balanceOf w c (address req) of Inl err \<Rightarrow> False
             | Inr bal \<Rightarrow> 0 < unat bal \<and> unat bal \<le> MAX_SAFE_INTEGER)
      then Continue (looked_up w req c st)
      else Respond (json 403 (ErrorBody ''NFT ownership check failed - access denied'')
                     (looked_up w req c st)))"
  using assms owner_matched_iff [OF assms(1,2), of w]
  by (simp add: ownership_check_def Let_def looked_up_def balance_step_fst)

lemma looked_up_trace:
  assumes "nftContract req = Some c" and "address req \<noteq> []"
  shows "trace (looked_up w req c st) =
     trace st @ [NewProvider (RPC_URL w), NewContract c]
       @ (case nftTokenId req of None \<Rightarrow> [] | Some t \<Rightarrow> [OwnerOf c t])
       @ (if owner_matched w req then [] else [BalanceOf c (address req)])"
  using owner_matched_iff [OF assms, of w]
  by (simp add: looked_up_def balance_step_snd owner_step_snd split: option.splits)

lemma looked_up_fields [simp]:
  "sent (looked_up w req c st) = sent st" "headersSent (looked_up w req c st) = headersSent st"
  "statusCode (looked_up w req c st) = statusCode st" "reply (looked_up w req c st) = reply st"
  "writeCalls (looked_up w req c st) = writeCalls st" "ended (looked_up w req c st) = ended st"
  "getHeader n (looked_up w req c st) = getHeader n st"
  by (simp_all add: looked_up_def balance_step_snd owner_step_snd getHeader_def call_def
        split: option.splits)

subsection \<open>Requests that are answered before any collaborator is called\<close>

lemma handler_Respond: "gate w req = Respond s \<Longrightarrow> handler w req = Some s"
  by (simp add: handler_def)

lemma missing_fields:
  assumes "req_method req = ''POST''"
    and "\<not> truthy (body_address (destructure (req_body req)))
         \<or> \<not> truthy (body_signature (destructure (req_body req)))
         \<or> \<not> truthy (body_input (destructure (req_body req)))"
  shows "gate w req =
           Respond (json 400 (ErrorBody ''Missing required fields: address, signature, input'')
                      (cors w req initial))"
  using assms by (auto simp add: gate_def authenticate_def Let_def)

text \<open>
  C4: a POST request in which the address, the signature or the input is missing or empty
  is answered with 400, and the handler calls no collaborator on the way: no signature
  recovery, no read-node call, no call on the chat provider, nothing written to the caller.
  The trace of the final state is empty.
\<close>

theorem missing_field_400_no_calls:
  assumes "req_method req = ''POST''"
    and "\<not> truthy (body_address (destructure (req_body req)))
         \<or> \<not> truthy (body_signature (destructure (req_body req)))
         \<or> \<not> truthy (body_input (destructure (req_body req)))"
  shows "\<exists>s. handler w req = Some s \<and> statusCode s = 400
           \<and> reply s = Some (ErrorBody ''Missing required fields: address, signature, input'')
           \<and> trace s = [] \<and> sent s = []"
  using handler_Respond [OF missing_fields [OF assms]] by simp

theorem missing_field_400_no_calls_witness:
  "map_option statusCode (handler sample_world (post ''0xa11ce'' [] ''hello'' ''0xnft'' None))
     = Some 400
   \<and> map_option trace (handler sample_world (post ''0xa11ce'' [] ''hello'' ''0xnft'' None))
     = Some []"
  using missing_field_400_no_calls [of "post ''0xa11ce'' [] ''hello'' ''0xnft'' None" sample_world]
  by (auto simp add: post_def destructure_def truthy_def)

text \<open>
  C10: a POST request whose body is absent (\<^verbatim>\<open>null\<close> or \<^verbatim>\<open>undefined\<close>) does not make
  the field extraction throw: the fields are read from the empty object, all of them are
  missing, and the request is answered with 400.
\<close>

theorem absent_body_400:
  assumes "req_method req = ''POST''" and "req_body req = None"
  shows "destructure (req_body req) = no_fields
         \<and> (\<exists>s. handler w req = Some s \<and> statusCode s = 400
               \<and> reply s = Some (ErrorBody ''Missing required fields: address, signature, input''))"
proof -
  have d: "destructure (req_body req) = no_fields"
    using assms(2) by (simp add: destructure_def)
  have "\<not> truthy (body_address (destructure (req_body req)))"
    by (simp add: d no_fields_def truthy_def)
  then have "handler w req = Some (json 400
      (ErrorBody ''Missing required fields: address, signature, input'') (cors w req initial))"
    using missing_fields [OF assms(1)] handler_Respond by blast
  then show ?thesis using d by simp
qed

theorem absent_body_400_witness:
  "map_option statusCode
     (handler sample_world \<lparr>req_method = ''POST'', req_origin = None, req_body = None\<rparr>)
     = Some 400"
  using absent_body_400
    [of "\<lparr>req_method = ''POST'', req_origin = None, req_body = None\<rparr>" sample_world]
  by auto

subsection \<open>The sample world, evaluated\<close>

lemma truthy_simps [simp]: "\<not> truthy None" "truthy (Some s) = (s \<noteq> [])"
  by (simp_all add: truthy_def)

lemma post_simps [simp]:
  "req_method (post a s i c t) = ''POST''"
  "truthy (body_address (destructure (req_body (post a s i c t)))) = (a \<noteq> [])"
  "truthy (body_signature (destructure (req_body (post a s i c t)))) = (s \<noteq> [])"
  "truthy (body_input (destructure (req_body (post a s i c t)))) = (i \<noteq> [])"
  "address (post a s i c t) = a" "signature (post a s i c t) = s" "input (post a s i c t) = i"
  "nftContract (post a s i c t) = (if c = [] then None else Some c)"
  "nftTokenId (post a s i c t) = t"
  by (simp_all add: post_def destructure_def truthy_def str_def address_def signature_def
        input_def nftContract_def nftTokenId_def)

lemma sample_world_simps [simp]:
  "env_OPENAI_API_KEY sample_world = Some ''sk-sample''"
  "RPC_URL sample_world = ''https://cloudflare-eth.com''"
  "verifyMessage sample_world m s =
     (if s = ''sig-alice'' then Inr ''0xA11CE'' else if s = ''sig-bob'' then Inr ''0xB0B''
      else Inl (Error ''invalid signature''))"
  "JsonRpcProvider sample_world url = Inr ()"
  "Contract sample_world c = (if c = ''nowhere'' then Inl (Error ''invalid address'') else Inr ())"
  "ownerOf sample_world c t =
     (if t = TokenNum 7 then Inr ''0xA11CE'' else if t = TokenNum 8 then Inr ''0xB0B''
      else Inl (Error ''nonexistent token''))"
  "balanceOf sample_world c a =
     (if c = ''0xdown'' then Inl (Error ''timeout'') else if c = ''0xerc20'' then Inr (2 ^ 53)
      else if c = ''0xempty'' then Inr 0 else Inr 2)"
  "fetch sample_world key p =
     (if p = ''fail''
      then Inr \<lparr>resp_status = 503, resp_body = Some sample_body, resp_text = Inr ''overloaded''\<rparr>
      else Inr \<lparr>resp_status = 200, resp_body = Some sample_body, resp_text = Inr []\<rparr>)"
  "write_throws sample_world n = False"
  by (simp_all add: sample_world_def RPC_URL_def truthy_def)

lemma lower_samples [simp]:
  "toLowerCase ''0xA11CE'' = ''0xa11ce''" "toLowerCase ''0xa11ce'' = ''0xa11ce''"
  "toLowerCase ''0xB0B'' = ''0xb0b''"
  by code_simp+

subsection \<open>Signature verification\<close>

lemma verify_signature_cases:
  "verify_signature w a s i st =
     (case verifyMessage w (''I am requesting an AI response: '' @ i) s of
        Inl err \<Rightarrow> Respond (json 400 (ErrorBody ''Invalid signature'')
                     (call (VerifyMessage (''I am requesting an AI response: '' @ i) s) st))
      | Inr recovered \<Rightarrow>
          if toLowerCase recovered = toLowerCase a
          then Continue (call (VerifyMessage (''I am requesting an AI response: '' @ i) s) st)
          else Respond (json 401 (ErrorBody ''Signature does not match address'')
                     (call (VerifyMessage (''I am requesting an AI response: '' @ i) s) st)))"
  by (simp add: verify_signature_def Let_def split: sum.splits)

lemma gate_authenticate_Respond: "authenticate w req = Respond s \<Longrightarrow> gate w req = Respond s"
  by (simp add: gate_def)

lemma gate_authenticate_Continue:
  "authenticate w req = Continue st \<Longrightarrow> gate w req = ownership_check w req st"
  by (simp add: gate_def)

lemma missing_key:
  assumes "req_method req = ''POST''"
    and "truthy (body_address (destructure (req_body req)))"
    and "truthy (body_signature (destructure (req_body req)))"
    and "truthy (body_input (destructure (req_body req)))"
    and "\<not> truthy (env_OPENAI_API_KEY w)"
  shows "gate w req = Respond (json 500
           (ErrorBody ''Server misconfigured (missing OPENAI_API_KEY)'') (cors w req initial))"
  using assms by (simp add: gate_def authenticate_def Let_def)

text \<open>
  C3, as amended: for a POST request with non-empty address, signature and input, handled
  by a server whose \<^verbatim>\<open>OPENAI_API_KEY\<close> is configured, the signature is recovered over
  the fixed prefix followed by the input. If recovery succeeds and the recovered address
  equals the claimed one after lower-casing both, verification passes and the handler goes
  on to the ownership check; if recovery succeeds and the addresses differ the response is
  401; if recovery throws the response is 400, with a message of its own.
\<close>

theorem signature_outcomes:
  assumes "req_method req = ''POST''"
    and "truthy (body_address (destructure (req_body req)))"
    and "truthy (body_signature (destructure (req_body req)))"
    and "truthy (body_input (destructure (req_body req)))"
    and "truthy (env_OPENAI_API_KEY w)"
  shows
    "(\<forall>recovered.
        verifyMessage w (''I am requesting an AI response: '' @ input req) (signature req)
          = Inr recovered \<and> toLowerCase recovered = toLowerCase (address req)
        \<longrightarrow> (\<exists>st. authenticate w req = Continue st \<and> gate w req = ownership_check w req st))
     \<and> (\<forall>recovered.
        verifyMessage w (''I am requesting an AI response: '' @ input req) (signature req)
          = Inr recovered \<and> toLowerCase recovered \<noteq> toLowerCase (address req)
        \<longrightarrow> (\<exists>s. handler w req = Some s \<and> statusCode s = 401
                 \<and> reply s = Some (ErrorBody ''Signature does not match address'')))
     \<and> (\<forall>err.
        verifyMessage w (''I am requesting an AI response: '' @ input req) (signature req)
          = Inl err
        \<longrightarrow> (\<exists>s. handler w req = Some s \<and> statusCode s = 400
                 \<and> reply s = Some (ErrorBody ''Invalid signature'')))"
proof (intro conjI allI impI)
  note auth = authenticate_pass [OF assms]
  fix recovered
  assume "verifyMessage w (''I am requesting an AI response: '' @ input req) (signature req)
          = Inr recovered \<and> toLowerCase recovered = toLowerCase (address req)"
  then have "authenticate w req = Continue
      (call (VerifyMessage (''I am requesting an AI response: '' @ input req) (signature req))
         (cors w req initial))"
    by (simp add: auth verify_signature_cases)
  then show "\<exists>st. authenticate w req = Continue st \<and> gate w req = ownership_check w req st"
    by (simp add: gate_def)
next
  note auth = authenticate_pass [OF assms]
  fix recovered
  assume "verifyMessage w (''I am requesting an AI response: '' @ input req) (signature req)
          = Inr recovered \<and> toLowerCase recovered \<noteq> toLowerCase (address req)"
  then have "authenticate w req = Respond (json 401 (ErrorBody ''Signature does not match address'')
      (call (VerifyMessage (''I am requesting an AI response: '' @ input req) (signature req))
         (cors w req initial)))"
    by (simp add: auth verify_signature_cases)
  then show "\<exists>s. handler w req = Some s \<and> statusCode s = 401
                 \<and> reply s = Some (ErrorBody ''Signature does not match address'')"
    using handler_Respond [OF gate_authenticate_Respond] by fastforce
next
  note auth = authenticate_pass [OF assms]
  fix err
  assume "verifyMessage w (''I am requesting an AI response: '' @ input req) (signature req)
          = Inl err"
  then have "authenticate w req = Respond (json 400 (ErrorBody ''Invalid signature'')
      (call (VerifyMessage (''I am requesting an AI response: '' @ input req) (signature req))
         (cors w req initial)))"
    by (simp add: auth verify_signature_cases)
  then show "\<exists>s. handler w req = Some s \<and> statusCode s = 400
                 \<and> reply s = Some (ErrorBody ''Invalid signature'')"
    using handler_Respond [OF gate_authenticate_Respond] by fastforce
qed

theorem signature_outcomes_witness:
  "(\<exists>st. authenticate sample_world (post ''0xa11ce'' ''sig-alice'' ''hello'' ''0xnft'' None)
          = Continue st)
   \<and> map_option statusCode
        (handler sample_world (post ''0xa11ce'' ''sig-bob'' ''hello'' ''0xnft'' None)) = Some 401
   \<and> map_option statusCode
        (handler sample_world (post ''0xa11ce'' ''garbage'' ''hello'' ''0xnft'' None)) = Some 400"
proof (intro conjI)
  have key: "truthy (env_OPENAI_API_KEY sample_world)"
    by simp
  have "verifyMessage sample_world (''I am requesting an AI response: ''
           @ input (post ''0xa11ce'' ''sig-alice'' ''hello'' ''0xnft'' None))
          (signature (post ''0xa11ce'' ''sig-alice'' ''hello'' ''0xnft'' None)) = Inr ''0xA11CE''
        \<and> toLowerCase ''0xA11CE''
            = toLowerCase (address (post ''0xa11ce'' ''sig-alice'' ''hello'' ''0xnft'' None))"
    by simp
  with signature_outcomes
      [of "post ''0xa11ce'' ''sig-alice'' ''hello'' ''0xnft'' None" sample_world, OF _ _ _ _ key]
  show "\<exists>st. authenticate sample_world (post ''0xa11ce'' ''sig-alice'' ''hello'' ''0xnft'' None)
          = Continue st"
    by (simp del: sample_world_simps(3)) blast
  have "verifyMessage sample_world (''I am requesting an AI response: ''
           @ input (post ''0xa11ce'' ''sig-bob'' ''hello'' ''0xnft'' None))
          (signature (post ''0xa11ce'' ''sig-bob'' ''hello'' ''0xnft'' None)) = Inr ''0xB0B''
        \<and> toLowerCase ''0xB0B''
            \<noteq> toLowerCase (address (post ''0xa11ce'' ''sig-bob'' ''hello'' ''0xnft'' None))"
    by simp
  with signature_outcomes
      [of "post ''0xa11ce'' ''sig-bob'' ''hello'' ''0xnft'' None" sample_world, OF _ _ _ _ key]
  show "map_option statusCode
        (handler sample_world (post ''0xa11ce'' ''sig-bob'' ''hello'' ''0xnft'' None)) = Some 401"
    by (simp del: sample_world_simps(3)) fastforce
  have "verifyMessage sample_world (''I am requesting an AI response: ''
           @ input (post ''0xa11ce'' ''garbage'' ''hello'' ''0xnft'' None))
          (signature (post ''0xa11ce'' ''garbage'' ''hello'' ''0xnft'' None))
        = Inl (Error ''invalid signature'')"
    by simp
  with signature_outcomes
      [of "post ''0xa11ce'' ''garbage'' ''hello'' ''0xnft'' None" sample_world, OF _ _ _ _ key]
  show "map_option statusCode
        (handler sample_world (post ''0xa11ce'' ''garbage'' ''hello'' ''0xnft'' None)) = Some 400"
    by (simp del: sample_world_simps(3)) fastforce
qed

text \<open>
  C3 as stated, for every such POST request, fails where the key is not configured: the
  configuration check comes before the signature check, so a request whose signature
  recovers to another address is answered with 500, not 401.
\<close>

theorem signature_mismatch_without_key_counterexample:
  "req_method (post ''0xa11ce'' ''sig-bob'' ''hello'' ''0xnft'' None) = ''POST''
   \<and> truthy (body_address (destructure (req_body (post ''0xa11ce'' ''sig-bob'' ''hello'' ''0xnft'' None))))
   \<and> truthy (body_signature (destructure (req_body (post ''0xa11ce'' ''sig-bob'' ''hello'' ''0xnft'' None))))
   \<and> truthy (body_input (destructure (req_body (post ''0xa11ce'' ''sig-bob'' ''hello'' ''0xnft'' None))))
   \<and> verifyMessage (sample_world\<lparr>env_OPENAI_API_KEY := None\<rparr>)
        (''I am requesting an AI response: '' @ ''hello'') ''sig-bob'' = Inr ''0xB0B''
   \<and> toLowerCase ''0xB0B'' \<noteq> toLowerCase ''0xa11ce''
   \<and> map_option statusCode
        (handler (sample_world\<lparr>env_OPENAI_API_KEY := None\<rparr>)
           (post ''0xa11ce'' ''sig-bob'' ''hello'' ''0xnft'' None)) = Some 500"
proof -
  have "gate (sample_world\<lparr>env_OPENAI_API_KEY := None\<rparr>)
           (post ''0xa11ce'' ''sig-bob'' ''hello'' ''0xnft'' None)
        = Respond (json 500 (ErrorBody ''Server misconfigured (missing OPENAI_API_KEY)'')
            (cors (sample_world\<lparr>env_OPENAI_API_KEY := None\<rparr>)
               (post ''0xa11ce'' ''sig-bob'' ''hello'' ''0xnft'' None) initial))"
    by (rule missing_key) simp_all
  from handler_Respond [OF this] show ?thesis
    by simp
qed

subsection \<open>The ownership check\<close>

lemma ownership_check_Continue:
  assumes "ownership_check w req st0 = Continue st"
  shows "\<exists>c. nftContract req = Some c \<and> JsonRpcProvider w (RPC_URL w) = Inr ()
           \<and> Contract w c = Inr ()"
  using assms
  by (auto simp add: ownership_check_def Let_def split: option.splits sum.splits if_splits)

lemma word_positive: "0 < unat (bal :: 256 word) \<Longrightarrow> 0 < bal"
  by (simp add: word_greater_zero_iff unat_gt_0)

lemma gate_Continue:
  assumes "gate w req = Continue st"
  shows "\<exists>st0 c. authenticate w req = Continue st0 \<and> nftContract req = Some c
           \<and> JsonRpcProvider w (RPC_URL w) = Inr () \<and> Contract w c = Inr ()
           \<and> (owner_matched w req
                \<or> (case balanceOf w c (address req) of Inl err \<Rightarrow> False
                    | Inr bal \<Rightarrow> 0 < unat bal \<and> unat bal \<le> MAX_SAFE_INTEGER))
           \<and> st = looked_up w req c st0"
proof -
  from assms obtain st0 where auth: "authenticate w req = Continue st0"
    and oc: "ownership_check w req st0 = Continue st"
    by (auto simp add: gate_def split: flow.splits)
  from ownership_check_Continue [OF oc] obtain c where c: "nftContract req = Some c"
    and p: "JsonRpcProvider w (RPC_URL w) = Inr ()" and k: "Contract w c = Inr ()"
    by blast
  note a = authenticate_state(2) [OF auth]
  from oc show ?thesis
    unfolding ownership_check_decides [OF c a p k]
    using auth c p k by (auto split: if_splits)
qed

lemma gate_Continue_entitled:
  assumes "gate w req = Continue st"
  shows "owner_matched w req \<or> balance_positive w req"
proof -
  from gate_Continue [OF assms] obtain c where c: "nftContract req = Some c"
    and d: "owner_matched w req
                \<or> (case balanceOf w c (address req) of Inl err \<Rightarrow> False
                    | Inr bal \<Rightarrow> 0 < unat bal \<and> unat bal \<le> MAX_SAFE_INTEGER)"
    by blast
  from d show ?thesis
    by (auto simp add: balance_positive_def c word_positive split: sum.splits)
qed

lemma authenticate_clean:
  "sent (state_of (authenticate w req)) = []
   \<and> (\<forall>e \<in> set (trace (state_of (authenticate w req))). \<not> is_upstream e)"
  by (simp add: authenticate_def verify_signature_cases Let_def split: sum.splits)

lemma ownership_check_clean:
  assumes "sent st = []" and "\<forall>e \<in> set (trace st). \<not> is_upstream e"
  shows "sent (state_of (ownership_check w req st)) = []
   \<and> (\<forall>e \<in> set (trace (state_of (ownership_check w req st))). \<not> is_upstream e)"
  using assms
  by (simp add: ownership_check_def Let_def owner_step_snd balance_step_snd
        split: option.splits sum.splits)

lemma gate_clean:
  "sent (state_of (gate w req)) = []
   \<and> (\<forall>e \<in> set (trace (state_of (gate w req))). \<not> is_upstream e)"
proof (cases "authenticate w req")
  case (Respond s)
  with authenticate_clean [of w req] show ?thesis by (simp add: gate_def)
next
  case (Continue st)
  with authenticate_clean [of w req] ownership_check_clean [of st w req]
  show ?thesis by (simp add: gate_def)
qed

lemma not_entitled_Respond:
  assumes "\<not> (owner_matched w req \<or> balance_positive w req)"
  shows "\<exists>s. gate w req = Respond s"
  using assms gate_Continue_entitled [of w req] by (cases "gate w req") auto

lemma checked_and_refused:
  assumes "authenticate w req = Continue st0" and "nftContract req = Some c"
    and "JsonRpcProvider w (RPC_URL w) = Inr ()" and "Contract w c = Inr ()"
    and "\<not> owner_matched w req"
    and "case balanceOf w c (address req) of Inl err \<Rightarrow> True
         | Inr bal \<Rightarrow> \<not> (0 < unat bal \<and> unat bal \<le> MAX_SAFE_INTEGER)"
  shows "gate w req = Respond (json 403
           (ErrorBody ''NFT ownership check failed - access denied'') (looked_up w req c st0))"
  using assms(5,6)
  by (auto simp add: gate_authenticate_Continue [OF assms(1)]
        ownership_check_decides [OF assms(2) authenticate_state(2) [OF assms(1)] assms(3,4)]
        split: sum.splits)

lemma authenticate_verified:
  assumes "req_method req = ''POST''"
    and "truthy (body_address (destructure (req_body req)))"
    and "truthy (body_signature (destructure (req_body req)))"
    and "truthy (body_input (destructure (req_body req)))"
    and "truthy (env_OPENAI_API_KEY w)"
    and "verifyMessage w (''I am requesting an AI response: '' @ input req) (signature req)
           = Inr recovered"
    and "toLowerCase recovered = toLowerCase (address req)"
  shows "authenticate w req = Continue
           (call (VerifyMessage (''I am requesting an AI response: '' @ input req) (signature req))
              (cors w req initial))"
  using assms(6,7) by (simp add: authenticate_pass [OF assms(1-5)] verify_signature_cases)

lemma sample_alice:
  assumes "i \<noteq> []"
  shows "authenticate sample_world (post ''0xa11ce'' ''sig-alice'' i c t) = Continue
           (call (VerifyMessage (''I am requesting an AI response: '' @ i) ''sig-alice'')
              (cors sample_world (post ''0xa11ce'' ''sig-alice'' i c t) initial))"
  using authenticate_verified
    [of "post ''0xa11ce'' ''sig-alice'' i c t" sample_world "''0xA11CE''"] assms
  by simp

lemma checked_and_granted:
  assumes "authenticate w req = Continue st0" and "nftContract req = Some c"
    and "JsonRpcProvider w (RPC_URL w) = Inr ()" and "Contract w c = Inr ()"
    and "owner_matched w req
         \<or> (case balanceOf w c (address req) of Inl err \<Rightarrow> False
             | Inr bal \<Rightarrow> 0 < unat bal \<and> unat bal \<le> MAX_SAFE_INTEGER)"
  shows "gate w req = Continue (looked_up w req c st0)"
  using assms(5)
  by (simp add: gate_authenticate_Continue [OF assms(1)]
        ownership_check_decides [OF assms(2) authenticate_state(2) [OF assms(1)] assms(3,4)])

lemma construction_throws:
  assumes "authenticate w req = Continue st0" and "nftContract req = Some c"
    and "(\<exists>err. JsonRpcProvider w (RPC_URL w) = Inl err) \<or> (\<exists>err. Contract w c = Inl err)"
  shows "\<exists>s. gate w req = Respond s \<and> statusCode s = 500
           \<and> reply s = Some (ErrorBody ''Failed to verify ownership'')"
  using assms(2,3)
  by (auto simp add: gate_authenticate_Continue [OF assms(1)] ownership_check_def Let_def
        split: sum.splits)

text \<open>
  C2: fail-closed entitlement. The gate hands the request on to the proxy only if the
  token-owner lookup matched the claimed address or the balance lookup returned a value
  greater than zero; so a run that reaches the provider (or never ends) is an entitled one.
  In every other case the request is answered by the gate, nothing is streamed and the
  provider is never called; and when the checks ran (the request passed authentication, a
  contract is named and the read-node client was constructed) and established nothing, the
  answer is 403. A lookup that throws counts as establishing nothing.
\<close>

theorem fail_closed:
  "(\<forall>st. gate w req = Continue st \<longrightarrow> owner_matched w req \<or> balance_positive w req)
   \<and> (handler w req = None \<or> (\<exists>s. handler w req = Some s \<and> (\<exists>e \<in> set (trace s). is_upstream e))
        \<longrightarrow> owner_matched w req \<or> balance_positive w req)
   \<and> (\<not> (owner_matched w req \<or> balance_positive w req) \<longrightarrow>
        (\<exists>s. gate w req = Respond s \<and> handler w req = Some s \<and> sent s = []
              \<and> (\<forall>e \<in> set (trace s). \<not> is_upstream e)))
   \<and> (\<forall>st0 c. authenticate w req = Continue st0 \<and> nftContract req = Some c
          \<and> JsonRpcProvider w (RPC_URL w) = Inr () \<and> Contract w c = Inr ()
          \<and> \<not> (owner_matched w req \<or> balance_positive w req)
        \<longrightarrow> (\<exists>s. handler w req = Some s \<and> statusCode s = 403
               \<and> reply s = Some (ErrorBody ''NFT ownership check failed - access denied'')))"
proof (intro conjI allI impI)
  fix st assume "gate w req = Continue st"
  then show "owner_matched w req \<or> balance_positive w req"
    by (rule gate_Continue_entitled)
next
  assume up: "handler w req = None
        \<or> (\<exists>s. handler w req = Some s \<and> (\<exists>e \<in> set (trace s). is_upstream e))"
  show "owner_matched w req \<or> balance_positive w req"
  proof (cases "gate w req")
    case (Respond s)
    with gate_clean [of w req] handler_Respond [OF Respond] up show ?thesis by auto
  next
    case (Continue st)
    then show ?thesis by (rule gate_Continue_entitled)
  qed
next
  assume ne: "\<not> (owner_matched w req \<or> balance_positive w req)"
  from not_entitled_Respond [OF ne] obtain s where s: "gate w req = Respond s" ..
  with gate_clean [of w req] handler_Respond [OF s]
  show "\<exists>s. gate w req = Respond s \<and> handler w req = Some s \<and> sent s = []
              \<and> (\<forall>e \<in> set (trace s). \<not> is_upstream e)"
    by simp
next
  fix st0 c
  assume a: "authenticate w req = Continue st0 \<and> nftContract req = Some c
          \<and> JsonRpcProvider w (RPC_URL w) = Inr () \<and> Contract w c = Inr ()
          \<and> \<not> (owner_matched w req \<or> balance_positive w req)"
  then have "case balanceOf w c (address req) of Inl err \<Rightarrow> True
         | Inr bal \<Rightarrow> \<not> (0 < unat bal \<and> unat bal \<le> MAX_SAFE_INTEGER)"
    by (auto simp add: balance_positive_def word_positive split: sum.splits)
  with a have "gate w req = Respond (json 403
           (ErrorBody ''NFT ownership check failed - access denied'') (looked_up w req c st0))"
    by (intro checked_and_refused) simp_all
  from handler_Respond [OF this]
  show "\<exists>s. handler w req = Some s \<and> statusCode s = 403
               \<and> reply s = Some (ErrorBody ''NFT ownership check failed - access denied'')"
    by simp
qed


theorem fail_closed_witness:
  "(\<exists>st. gate sample_world (post ''0xa11ce'' ''sig-alice'' ''hello'' ''0xnft'' (Some (TokenNum 7)))
          = Continue st)
   \<and> (owner_matched sample_world
          (post ''0xa11ce'' ''sig-alice'' ''hello'' ''0xnft'' (Some (TokenNum 7)))
        \<or> balance_positive sample_world
          (post ''0xa11ce'' ''sig-alice'' ''hello'' ''0xnft'' (Some (TokenNum 7))))
   \<and> \<not> owner_matched sample_world
          (post ''0xa11ce'' ''sig-alice'' ''hello'' ''0xempty'' (Some (TokenNum 8)))
   \<and> \<not> balance_positive sample_world
          (post ''0xa11ce'' ''sig-alice'' ''hello'' ''0xempty'' (Some (TokenNum 8)))
   \<and> map_option statusCode
        (handler sample_world (post ''0xa11ce'' ''sig-alice'' ''hello'' ''0xempty'' (Some (TokenNum 8))))
       = Some 403"
proof -
  let ?yes = "post ''0xa11ce'' ''sig-alice'' ''hello'' ''0xnft'' (Some (TokenNum 7))"
  let ?no = "post ''0xa11ce'' ''sig-alice'' ''hello'' ''0xempty'' (Some (TokenNum 8))"
  have m: "owner_matched sample_world ?yes"
    by (simp add: owner_matched_def)
  have g: "gate sample_world ?yes = Continue (looked_up sample_world ?yes ''0xnft''
      (call (VerifyMessage (''I am requesting an AI response: '' @ ''hello'') ''sig-alice'')
              (cors sample_world ?yes initial)))"
    by (rule checked_and_granted [OF sample_alice]) (simp_all add: m)
  have n: "\<not> owner_matched sample_world ?no" "\<not> balance_positive sample_world ?no"
    by (simp_all add: owner_matched_def balance_positive_def)
  have a: "authenticate sample_world ?no = Continue
      (call (VerifyMessage (''I am requesting an AI response: '' @ ''hello'') ''sig-alice'')
              (cors sample_world ?no initial))"
    by (rule sample_alice) simp
  from fail_closed [of sample_world ?yes] g
  have "owner_matched sample_world ?yes \<or> balance_positive sample_world ?yes"
    by blast
  moreover from fail_closed [of sample_world ?no] a n
  have "map_option statusCode (handler sample_world ?no) = Some 403"
    by fastforce
  ultimately show ?thesis using g n by simp
qed

lemma ownership_500_only_construction:
  assumes "authenticate w req = Continue st0" and "nftContract req = Some c"
    and "gate w req = Respond s" and "statusCode s = 500"
  shows "(\<exists>err. JsonRpcProvider w (RPC_URL w) = Inl err) \<or> (\<exists>err. Contract w c = Inl err)"
proof (cases "JsonRpcProvider w (RPC_URL w)")
  case (Inl err)
  then show ?thesis by simp
next
  case p: (Inr u)
  show ?thesis
  proof (cases "Contract w c")
    case (Inl err)
    then show ?thesis by simp
  next
    case k: (Inr u')
    from assms(3,4) have False
      using p k
      by (auto simp add: gate_authenticate_Continue [OF assms(1)]
            ownership_check_decides [OF assms(2) authenticate_state(2) [OF assms(1)]]
            split: if_splits)
    then show ?thesis ..
  qed
qed

text \<open>
  C5, as amended: a read-node lookup that fails is caught and counts as inconclusive; it is
  not answered with 500. For a request that reaches the ownership check with a contract
  named: when the balance lookup throws and the owner lookup has not matched, the response
  is 403; when the owner lookup throws, the balance lookup still decides, and a balance
  between 1 and \<open>2^53 - 1\<close> lets the request through; the response of this stage is 500
  (``Failed to verify ownership'') when, and only when, constructing the provider or the
  contract object throws.
\<close>

theorem lookup_failure_is_inconclusive:
  assumes "authenticate w req = Continue st0" and "nftContract req = Some c"
  shows
    "(JsonRpcProvider w (RPC_URL w) = Inr () \<and> Contract w c = Inr ()
        \<and> \<not> owner_matched w req \<and> (\<exists>err. balanceOf w c (address req) = Inl err)
      \<longrightarrow> (\<exists>s. handler w req = Some s \<and> statusCode s = 403))
     \<and> (JsonRpcProvider w (RPC_URL w) = Inr () \<and> Contract w c = Inr ()
        \<and> (\<exists>t err. nftTokenId req = Some t \<and> ownerOf w c t = Inl err)
        \<and> (\<exists>bal. balanceOf w c (address req) = Inr bal \<and> 0 < unat bal
               \<and> unat bal \<le> MAX_SAFE_INTEGER)
      \<longrightarrow> (\<exists>st. gate w req = Continue st))
     \<and> ((\<exists>err. JsonRpcProvider w (RPC_URL w) = Inl err) \<or> (\<exists>err. Contract w c = Inl err)
      \<longrightarrow> (\<exists>s. handler w req = Some s \<and> statusCode s = 500
               \<and> reply s = Some (ErrorBody ''Failed to verify ownership'')))
     \<and> (\<forall>s. gate w req = Respond s \<and> statusCode s = 500
      \<longrightarrow> (\<exists>err. JsonRpcProvider w (RPC_URL w) = Inl err) \<or> (\<exists>err. Contract w c = Inl err))"
proof (intro conjI allI impI)
  assume a: "JsonRpcProvider w (RPC_URL w) = Inr () \<and> Contract w c = Inr ()
        \<and> \<not> owner_matched w req \<and> (\<exists>err. balanceOf w c (address req) = Inl err)"
  then have "gate w req = Respond (json 403
           (ErrorBody ''NFT ownership check failed - access denied'') (looked_up w req c st0))"
    by (intro checked_and_refused [OF assms]) auto
  from handler_Respond [OF this] show "\<exists>s. handler w req = Some s \<and> statusCode s = 403"
    by simp
next
  assume a: "JsonRpcProvider w (RPC_URL w) = Inr () \<and> Contract w c = Inr ()
        \<and> (\<exists>t err. nftTokenId req = Some t \<and> ownerOf w c t = Inl err)
        \<and> (\<exists>bal. balanceOf w c (address req) = Inr bal \<and> 0 < unat bal
               \<and> unat bal \<le> MAX_SAFE_INTEGER)"
  then have "gate w req = Continue (looked_up w req c st0)"
    by (intro checked_and_granted [OF assms]) auto
  then show "\<exists>st. gate w req = Continue st" ..
next
  assume "(\<exists>err. JsonRpcProvider w (RPC_URL w) = Inl err) \<or> (\<exists>err. Contract w c = Inl err)"
  from construction_throws [OF assms this] handler_Respond
  show "\<exists>s. handler w req = Some s \<and> statusCode s = 500
               \<and> reply s = Some (ErrorBody ''Failed to verify ownership'')"
    by blast
next
  fix s
  assume "gate w req = Respond s \<and> statusCode s = 500"
  then show "(\<exists>err. JsonRpcProvider w (RPC_URL w) = Inl err) \<or> (\<exists>err. Contract w c = Inl err)"
    using ownership_500_only_construction [OF assms] by blast
qed

theorem lookup_failure_is_inconclusive_witness:
  "balanceOf sample_world ''0xdown'' ''0xa11ce'' = Inl (Error ''timeout'')
   \<and> map_option statusCode
        (handler sample_world (post ''0xa11ce'' ''sig-alice'' ''hello'' ''0xdown'' None)) = Some 403
   \<and> ownerOf sample_world ''0xnft'' (TokenNum 9) = Inl (Error ''nonexistent token'')
   \<and> (\<exists>st. gate sample_world
              (post ''0xa11ce'' ''sig-alice'' ''hello'' ''0xnft'' (Some (TokenNum 9))) = Continue st)
   \<and> Contract sample_world ''nowhere'' = Inl (Error ''invalid address'')
   \<and> map_option statusCode
        (handler sample_world (post ''0xa11ce'' ''sig-alice'' ''hello'' ''nowhere'' None)) = Some 500"
proof -
  let ?down = "post ''0xa11ce'' ''sig-alice'' ''hello'' ''0xdown'' None"
  let ?nine = "post ''0xa11ce'' ''sig-alice'' ''hello'' ''0xnft'' (Some (TokenNum 9))"
  let ?nowhere = "post ''0xa11ce'' ''sig-alice'' ''hello'' ''nowhere'' None"
  have a: "authenticate sample_world (post ''0xa11ce'' ''sig-alice'' ''hello'' c t) = Continue
      (call (VerifyMessage (''I am requesting an AI response: '' @ ''hello'') ''sig-alice'')
         (cors sample_world (post ''0xa11ce'' ''sig-alice'' ''hello'' c t) initial))" for c t
    by (rule sample_alice) simp
  have "\<not> owner_matched sample_world ?down"
    by (simp add: owner_matched_def)
  with lookup_failure_is_inconclusive [OF a, of "''0xdown''" None "''0xdown''"]
  have 1: "map_option statusCode (handler sample_world ?down) = Some 403"
    by fastforce
  have "unat (2 :: 256 word) \<le> MAX_SAFE_INTEGER"
    by (simp add: MAX_SAFE_INTEGER_def)
  with lookup_failure_is_inconclusive [OF a, of "''0xnft''" "Some (TokenNum 9)" "''0xnft''"]
  have 2: "\<exists>st. gate sample_world ?nine = Continue st"
    by simp
  from lookup_failure_is_inconclusive [OF a, of "''nowhere''" None "''nowhere''"]
  have 3: "map_option statusCode (handler sample_world ?nowhere) = Some 500"
    by fastforce
  from 1 2 3 show ?thesis by simp
qed

text \<open>
  C5 as stated fails: with both lookups throwing, both calls are made and the response is
  403, not 500.
\<close>

theorem lookups_throw_403_counterexample:
  "ownerOf sample_world ''0xdown'' (TokenNum 9) = Inl (Error ''nonexistent token'')
   \<and> balanceOf sample_world ''0xdown'' ''0xa11ce'' = Inl (Error ''timeout'')
   \<and> map_option statusCode
        (handler sample_world (post ''0xa11ce'' ''sig-alice'' ''hello'' ''0xdown'' (Some (TokenNum 9))))
       = Some 403
   \<and> map_option trace
        (handler sample_world (post ''0xa11ce'' ''sig-alice'' ''hello'' ''0xdown'' (Some (TokenNum 9))))
       = Some [VerifyMessage ''I am requesting an AI response: hello'' ''sig-alice'',
               NewProvider ''https://cloudflare-eth.com'', NewContract ''0xdown'',
               OwnerOf ''0xdown'' (TokenNum 9), BalanceOf ''0xdown'' ''0xa11ce'']"
proof -
  let ?r = "post ''0xa11ce'' ''sig-alice'' ''hello'' ''0xdown'' (Some (TokenNum 9))"
  have n: "\<not> owner_matched sample_world ?r"
    by (simp add: owner_matched_def)
  have "gate sample_world ?r = Respond (json 403
           (ErrorBody ''NFT ownership check failed - access denied'')
           (looked_up sample_world ?r ''0xdown''
              (call (VerifyMessage (''I am requesting an AI response: '' @ ''hello'') ''sig-alice'')
                 (cors sample_world ?r initial))))"
    by (rule checked_and_refused [OF sample_alice]) (simp_all add: n)
  from handler_Respond [OF this] show ?thesis
    by (simp add: looked_up_trace n)
qed

text \<open>
  C9: when the decision falls through to the balance check (the owner lookup has not
  matched) and the balance returned exceeds \<open>2^53 - 1\<close>, the conversion to a number throws,
  the exception is swallowed, and the request is denied with 403 although the balance is
  positive; the balance lookup was made and the provider is never called.
\<close>

theorem unsafe_balance_denied:
  assumes "authenticate w req = Continue st0" and "nftContract req = Some c"
    and "JsonRpcProvider w (RPC_URL w) = Inr ()" and "Contract w c = Inr ()"
    and "\<not> owner_matched w req"
    and "balanceOf w c (address req) = Inr bal" and "MAX_SAFE_INTEGER < unat bal"
  shows "(\<exists>err. toNumber bal = Inl err) \<and> 0 < bal
         \<and> (\<exists>s. handler w req = Some s \<and> statusCode s = 403
               \<and> reply s = Some (ErrorBody ''NFT ownership check failed - access denied'')
               \<and> BalanceOf c (address req) \<in> set (trace s)
               \<and> (\<forall>e \<in> set (trace s). \<not> is_upstream e))"
proof -
  have t: "\<exists>err. toNumber bal = Inl err"
    using assms(7) by (simp add: toNumber_def)
  have p: "0 < bal"
    using assms(7) by (intro word_positive) simp
  have g: "gate w req = Respond (json 403
           (ErrorBody ''NFT ownership check failed - access denied'') (looked_up w req c st0))"
    using assms(5,6,7) by (intro checked_and_refused [OF assms(1-4)]) simp_all
  from gate_clean [of w req] g
  have "\<forall>e \<in> set (trace (looked_up w req c st0)). \<not> is_upstream e"
    by simp
  with handler_Respond [OF g] t p assms(5) show ?thesis
    by (simp add: looked_up_trace [OF assms(2) authenticate_state(2) [OF assms(1)]])
qed

theorem unsafe_balance_denied_witness:
  "\<not> owner_matched sample_world
        (post ''0xa11ce'' ''sig-alice'' ''hello'' ''0xerc20'' (Some (TokenNum 8)))
   \<and> balanceOf sample_world ''0xerc20'' ''0xa11ce'' = Inr (2 ^ 53)
   \<and> MAX_SAFE_INTEGER < unat (2 ^ 53 :: 256 word)
   \<and> toNumber (2 ^ 53) = Inl (Error ''overflow'')
   \<and> map_option statusCode
        (handler sample_world (post ''0xa11ce'' ''sig-alice'' ''hello'' ''0xerc20'' (Some (TokenNum 8))))
       = Some 403"
proof -
  let ?r = "post ''0xa11ce'' ''sig-alice'' ''hello'' ''0xerc20'' (Some (TokenNum 8))"
  have n: "\<not> owner_matched sample_world ?r"
    by (simp add: owner_matched_def)
  have b: "balanceOf sample_world ''0xerc20'' (address ?r) = Inr (2 ^ 53)"
    by simp
  have u: "MAX_SAFE_INTEGER < unat (2 ^ 53 :: 256 word)"
    by (simp add: MAX_SAFE_INTEGER_def)
  have a: "authenticate sample_world ?r = Continue
      (call (VerifyMessage (''I am requesting an AI response: '' @ ''hello'') ''sig-alice'')
         (cors sample_world ?r initial))"
    by (rule sample_alice) simp
  from unsafe_balance_denied [OF a _ _ _ n b u]
  have "map_option statusCode (handler sample_world ?r) = Some 403"
    by fastforce
  with n u show ?thesis
    by (simp add: toNumber_def)
qed

text \<open>
  The order of the two lookups: an owner match lets the request through without a balance
  lookup; without one the balance lookup is made, and a balance between 1 and \<open>2^53 - 1\<close>
  lets the request through.
\<close>

lemma owner_match_skips_balance:
  assumes "authenticate w req = Continue st0" and "nftContract req = Some c"
    and "JsonRpcProvider w (RPC_URL w) = Inr ()" and "Contract w c = Inr ()"
    and "owner_matched w req"
  shows "gate w req = Continue (looked_up w req c st0)"
    and "\<forall>a. BalanceOf c a \<notin> set (trace (looked_up w req c st0))"
proof -
  show "gate w req = Continue (looked_up w req c st0)"
    using assms(5) by (intro checked_and_granted [OF assms(1-4)]) simp
  show "\<forall>a. BalanceOf c a \<notin> set (trace (looked_up w req c st0))"
    using assms(5)
    by (simp add: looked_up_trace [OF assms(2) authenticate_state(2) [OF assms(1)]]
          authenticate_state(1) [OF assms(1)] split: option.splits)
qed

lemma no_owner_match_asks_balance:
  assumes "authenticate w req = Continue st0" and "nftContract req = Some c"
    and "JsonRpcProvider w (RPC_URL w) = Inr ()" and "Contract w c = Inr ()"
    and "\<not> owner_matched w req"
  shows "BalanceOf c (address req) \<in> set (trace (state_of (gate w req)))"
    and "balanceOf w c (address req) = Inr bal \<Longrightarrow> 0 < unat bal
           \<Longrightarrow> unat bal \<le> MAX_SAFE_INTEGER \<Longrightarrow> gate w req = Continue (looked_up w req c st0)"
proof -
  show "BalanceOf c (address req) \<in> set (trace (state_of (gate w req)))"
    using assms(5)
    by (simp add: gate_authenticate_Continue [OF assms(1)]
          ownership_check_decides [OF assms(2) authenticate_state(2) [OF assms(1)] assms(3,4)]
          looked_up_trace [OF assms(2) authenticate_state(2) [OF assms(1)]])
  show "balanceOf w c (address req) = Inr bal \<Longrightarrow> 0 < unat bal
           \<Longrightarrow> unat bal \<le> MAX_SAFE_INTEGER \<Longrightarrow> gate w req = Continue (looked_up w req c st0)"
    by (intro checked_and_granted [OF assms(1-4)]) simp
qed

text \<open>
  C1 says that a returned balance greater than zero grants entitlement, as the comment of
  line 64 does. The handler run on a request without token id whose wallet has the balance
  \<open>2^53\<close>: the request is refused with 403.
\<close>

theorem positive_balance_refused:
  "nftTokenId (post ''0xa11ce'' ''sig-alice'' ''hello'' ''0xerc20'' None) = None
   \<and> balanceOf sample_world ''0xerc20'' ''0xa11ce'' = Inr (2 ^ 53)
   \<and> (0 :: 256 word) < 2 ^ 53
   \<and> map_option statusCode
        (handler sample_world (post ''0xa11ce'' ''sig-alice'' ''hello'' ''0xerc20'' None)) = Some 403
   \<and> map_option reply
        (handler sample_world (post ''0xa11ce'' ''sig-alice'' ''hello'' ''0xerc20'' None))
       = Some (Some (ErrorBody ''NFT ownership check failed - access denied''))"
proof -
  let ?r = "post ''0xa11ce'' ''sig-alice'' ''hello'' ''0xerc20'' None"
  have n: "\<not> owner_matched sample_world ?r"
    by (simp add: owner_matched_def)
  have "gate sample_world ?r = Respond (json 403
           (ErrorBody ''NFT ownership check failed - access denied'')
           (looked_up sample_world ?r ''0xerc20''
              (call (VerifyMessage (''I am requesting an AI response: '' @ ''hello'') ''sig-alice'')
                 (cors sample_world ?r initial))))"
    by (rule checked_and_refused [OF sample_alice]) (simp_all add: n MAX_SAFE_INTEGER_def)
  from handler_Respond [OF this] show ?thesis
    by simp
qed

subsection \<open>The read loop\<close>

lemma forward_write_simps [simp]:
  "trace (forward_write w c st) = trace st @ [Write c]"
  "writeCalls (forward_write w c st) = Suc (writeCalls st)"
  "sent (forward_write w c st) =
     (if write_throws w (writeCalls st) then sent st else sent st @ [utf8_encode c])"
  "statusCode (forward_write w c st) = statusCode st"
  "reply (forward_write w c st) = reply st"
  "ended (forward_write w c st) = ended st"
  "headers (forward_write w c st) = headers st"
  by (simp_all add: forward_write_def res_write_def Let_def call_def)

lemma forward_all_Nil [simp]: "forward_all w [] st = call Read st"
  by (simp add: forward_all_def)

lemma forward_all_Cons [simp]:
  "forward_all w (v # vs) st = forward_all w vs (forward_write w (decode v) (call Read st))"
  by (simp add: forward_all_def)

lemma read_loop_delivers:
  "delivers reader i vs \<Longrightarrow> read_loop w reader i st = Some (Finished (forward_all w vs st))"
proof (induction vs arbitrary: i st)
  case Nil
  then show ?case by (subst read_loop.simps) simp
next
  case (Cons v vs)
  then have "reader i = ReadValue v" and "delivers reader (Suc i) vs"
    by simp_all
  then show ?case
    using Cons.IH [of "Suc i"] by (subst read_loop.simps) simp
qed

lemma forward_all_trace:
  "trace (forward_all w vs st) =
     trace st @ concat (map (\<lambda>v. [Read, Write (decode v)]) vs) @ [Read]"
  by (induction vs arbitrary: st) simp_all

lemma forward_all_writeCalls [simp]:
  "writeCalls (forward_all w vs st) = writeCalls st + length vs"
  by (induction vs arbitrary: st) simp_all

lemma forward_all_sent:
  "sent (forward_all w vs st) =
     sent st @ map (\<lambda>kv. utf8_encode (decode (snd kv)))
                 (filter (\<lambda>kv. \<not> write_throws w (fst kv)) (enumerate (writeCalls st) vs))"
  by (induction vs arbitrary: st) simp_all

lemma forward_all_fields [simp]:
  "statusCode (forward_all w vs st) = statusCode st"
  "reply (forward_all w vs st) = reply st"
  "ended (forward_all w vs st) = ended st"
  "headers (forward_all w vs st) = headers st"
  by (induction vs arbitrary: st; simp add: call_def)+



text \<open>
  The loop of lines 158 to 164 read on its own: on a reader that delivers its chunks and
  then reports \<^verbatim>\<open>done\<close> it ends, having read every chunk and attempted a write for
  each, whichever writes failed. With the imported \<^verbatim>\<open>fetch\<close> the handler never enters
  it (lemma \<open>ok_body_500\<close> below).
\<close>

lemma loop_as_written:
  assumes "delivers reader 0 vs"
  shows "\<exists>st'. read_loop w reader 0 st = Some (Finished st')
           \<and> trace st' = trace st @ concat (map (\<lambda>v. [Read, Write (decode v)]) vs) @ [Read]
           \<and> sent st' = sent st @ map (\<lambda>kv. utf8_encode (decode (snd kv)))
                 (filter (\<lambda>kv. \<not> write_throws w (fst kv)) (enumerate (writeCalls st) vs))"
  using read_loop_delivers [OF assms] forward_all_trace forward_all_sent by simp

subsection \<open>The proxy\<close>

lemma handler_Continue:
  "gate w req = Continue st \<Longrightarrow>
     handler w req = proxy w (str (env_OPENAI_API_KEY w)) (input req) st"
  by (simp add: handler_def)

lemma getHeader_call [simp]: "getHeader n (call e st) = getHeader n st"
  by (simp add: getHeader_def call_def)

lemma getHeader_initial [simp]: "getHeader n initial = None"
  by (simp add: getHeader_def)

lemma cors_content_type [simp]:
  "getHeader ''Content-Type'' (cors w req st) = getHeader ''Content-Type'' st"
  by (simp add: cors_def Let_def)

lemma gate_Continue_state:
  assumes "gate w req = Continue st"
  shows "sent st = []" and "\<forall>e \<in> set (trace st). \<not> is_upstream e"
    and "statusCode st = 200" and "writeCalls st = 0" and "\<not> headersSent st"
    and "getHeader ''Content-Type'' st = None"
proof -
  from gate_clean [of w req] assms
  show "sent st = []" and "\<forall>e \<in> set (trace st). \<not> is_upstream e"
    by simp_all
  from gate_Continue [OF assms] obtain st0 c where a: "authenticate w req = Continue st0"
    and st: "st = looked_up w req c st0"
    by blast
  note st0 = authenticate_state(1) [OF a]
  show "statusCode st = 200" and "writeCalls st = 0" and "\<not> headersSent st"
    by (simp_all add: st st0)
  show "getHeader ''Content-Type'' st = None"
    by (simp add: st st0)
qed

lemma proxy_upstream_failed:
  assumes "fetch w key p = Inr oaResp" and "\<not> ok oaResp \<or> resp_body oaResp = None"
  shows "proxy w key p st = Some (upstream_failed oaResp (call (Fetch key p) st))"
  using assms by (auto simp add: proxy_def Let_def split: option.splits)

text \<open>
  C6: when the request has passed the gate and the provider answers with a status outside
  200 to 299, or without a body, the response is 500 and carries the provider's status and
  the text of its body (\<^verbatim>\<open><no-body>\<close> when that text cannot be read). Nothing is streamed:
  no chunk is written, the reader is never read, and the content type of the response is
  that of the JSON reply, not of an event stream.
\<close>

theorem upstream_failure_500_nothing_streamed:
  assumes "gate w req = Continue st"
    and "fetch w (str (env_OPENAI_API_KEY w)) (input req) = Inr oaResp"
    and "\<not> ok oaResp \<or> resp_body oaResp = None"
  shows "\<exists>s. handler w req = Some s \<and> statusCode s = 500
           \<and> reply s = Some (UpstreamFailure ''OpenAI request failed'' (resp_status oaResp)
                               (case resp_text oaResp of Inl err \<Rightarrow> ''<no-body>'' | Inr t \<Rightarrow> t))
           \<and> sent s = []
           \<and> getHeader ''Content-Type'' s = Some ''application/json; charset=utf-8''
           \<and> Read \<notin> set (trace s) \<and> (\<forall>c. Write c \<notin> set (trace s))"
proof -
  have h: "handler w req = Some (upstream_failed oaResp
             (call (Fetch (str (env_OPENAI_API_KEY w)) (input req)) st))"
    by (simp add: handler_Continue [OF assms(1)] proxy_upstream_failed [OF assms(2,3)])
  have "is_upstream Read" and "is_upstream (Write c)" for c
    by simp_all
  with gate_Continue_state(2) [OF assms(1)]
  have "Read \<notin> set (trace st)" and "Write c \<notin> set (trace st)" for c
    by blast+
  then show ?thesis
    by (simp add: h upstream_failed_def Let_def gate_Continue_state(1,6) [OF assms(1)])
qed


lemma sample_gate_alice_7:
  assumes "i \<noteq> []"
  shows "gate sample_world (post ''0xa11ce'' ''sig-alice'' i ''0xnft'' (Some (TokenNum 7)))
         = Continue (looked_up sample_world
             (post ''0xa11ce'' ''sig-alice'' i ''0xnft'' (Some (TokenNum 7))) ''0xnft''
             (call (VerifyMessage (''I am requesting an AI response: '' @ i) ''sig-alice'')
                (cors sample_world
                   (post ''0xa11ce'' ''sig-alice'' i ''0xnft'' (Some (TokenNum 7))) initial)))"
  by (rule checked_and_granted [OF sample_alice [OF assms]]) (simp_all add: owner_matched_def)

theorem upstream_failure_500_nothing_streamed_witness:
  "\<not> ok \<lparr>resp_status = 503, resp_body = Some sample_body, resp_text = Inr ''overloaded''\<rparr>
   \<and> map_option statusCode
        (handler sample_world (post ''0xa11ce'' ''sig-alice'' ''fail'' ''0xnft'' (Some (TokenNum 7))))
       = Some 500
   \<and> map_option reply
        (handler sample_world (post ''0xa11ce'' ''sig-alice'' ''fail'' ''0xnft'' (Some (TokenNum 7))))
       = Some (Some (UpstreamFailure ''OpenAI request failed'' 503 ''overloaded''))
   \<and> map_option sent
        (handler sample_world (post ''0xa11ce'' ''sig-alice'' ''fail'' ''0xnft'' (Some (TokenNum 7))))
       = Some []"
proof -
  let ?r = "post ''0xa11ce'' ''sig-alice'' ''fail'' ''0xnft'' (Some (TokenNum 7))"
  let ?resp = "\<lparr>resp_status = 503, resp_body = Some sample_body, resp_text = Inr ''overloaded''\<rparr>"
  have g: "gate sample_world ?r = Continue (looked_up sample_world ?r ''0xnft''
             (call (VerifyMessage (''I am requesting an AI response: '' @ ''fail'') ''sig-alice'')
                (cors sample_world ?r initial)))"
    by (rule sample_gate_alice_7) simp
  have f: "fetch sample_world (str (env_OPENAI_API_KEY sample_world)) (input ?r) = Inr ?resp"
    by simp
  have n: "\<not> ok ?resp"
    by (simp add: ok_def)
  from upstream_failure_500_nothing_streamed [OF g f] n show ?thesis
    by auto
qed

lemma stream_headers_simps [simp]:
  "sent (stream_headers st) = sent st" "trace (stream_headers st) = trace st"
  "writeCalls (stream_headers st) = writeCalls st" "statusCode (stream_headers st) = statusCode st"
  "reply (stream_headers st) = reply st" "headersSent (stream_headers st) = headersSent st"
  "getHeader ''Content-Type'' (stream_headers st) = Some ''text/event-stream; charset=utf-8''"
  by (simp_all add: stream_headers_def)

text \<open>
  An answer of the provider with a success status and a body: the headers of the stream
  are set, asking the body for a reader throws, and the last \<^verbatim>\<open>catch\<close> answers 500.
  Nothing is read from the provider and nothing is written to the caller.
\<close>

lemma proxy_no_reader:
  assumes "fetch w key p = Inr oaResp" and "ok oaResp" and "resp_body oaResp = Some b"
  shows "proxy w key p st = Some (streaming_error (stream_headers (call (Fetch key p) st)))"
  using assms by (simp add: proxy_def Let_def getReader_def)

lemma ok_body_500:
  assumes "gate w req = Continue st"
    and "fetch w (str (env_OPENAI_API_KEY w)) (input req) = Inr oaResp"
    and "ok oaResp" and "resp_body oaResp = Some b"
  shows "\<exists>s. handler w req = Some s \<and> statusCode s = 500
           \<and> reply s = Some (ErrorBody ''Internal server error'')
           \<and> sent s = [] \<and> ended s
           \<and> getHeader ''Content-Type'' s = Some ''text/event-stream; charset=utf-8''
           \<and> Read \<notin> set (trace s) \<and> (\<forall>c. Write c \<notin> set (trace s))"
proof -
  have h: "handler w req = Some (streaming_error (stream_headers
             (call (Fetch (str (env_OPENAI_API_KEY w)) (input req)) st)))"
    by (simp add: handler_Continue [OF assms(1)] proxy_no_reader [OF assms(2-4)])
  have "is_upstream Read" and "is_upstream (Write c)" for c
    by simp_all
  with gate_Continue_state(2) [OF assms(1)]
  have "Read \<notin> set (trace st)" and "Write c \<notin> set (trace st)" for c
    by blast+
  then show ?thesis
    by (simp add: h streaming_error_def gate_Continue_state(1,5) [OF assms(1)])
qed

text \<open>The handler always returns: the read loop, the one place where it could run on, is never entered.\<close>

lemma proxy_returns: "\<exists>s. proxy w key p st = Some s"
  by (simp add: proxy_def Let_def getReader_def split: sum.splits option.splits)

lemma handler_returns: "\<exists>s. handler w req = Some s"
  using proxy_returns by (cases "gate w req") (simp_all add: handler_def)

text \<open>
  C7 says that the chunks of an upstream that delivers them and ends normally reach the
  caller, in order and unchanged, followed by the terminator, and that the response is then
  closed. The handler run on an entitled request whose provider answers 200 with a body of
  two chunks: the answer is 500 ``Internal server error'', sent under the content type of
  an event stream, and the caller receives no chunk and no terminator.
\<close>

theorem stream_never_starts:
  "fetch sample_world ''sk-sample'' ''hello''
     = Inr \<lparr>resp_status = 200, resp_body = Some (Readable [[0x68, 0x69], [0x21]]),
            resp_text = Inr []\<rparr>
   \<and> map_option statusCode
        (handler sample_world (post ''0xa11ce'' ''sig-alice'' ''hello'' ''0xnft'' (Some (TokenNum 7))))
       = Some 500
   \<and> map_option reply
        (handler sample_world (post ''0xa11ce'' ''sig-alice'' ''hello'' ''0xnft'' (Some (TokenNum 7))))
       = Some (Some (ErrorBody ''Internal server error''))
   \<and> map_option sent
        (handler sample_world (post ''0xa11ce'' ''sig-alice'' ''hello'' ''0xnft'' (Some (TokenNum 7))))
       = Some []
   \<and> map_option (getHeader ''Content-Type'')
        (handler sample_world (post ''0xa11ce'' ''sig-alice'' ''hello'' ''0xnft'' (Some (TokenNum 7))))
       = Some (Some ''text/event-stream; charset=utf-8'')"
proof -
  let ?r = "post ''0xa11ce'' ''sig-alice'' ''hello'' ''0xnft'' (Some (TokenNum 7))"
  let ?resp = "\<lparr>resp_status = 200, resp_body = Some sample_body, resp_text = Inr []\<rparr>"
  have g: "gate sample_world ?r = Continue (looked_up sample_world ?r ''0xnft''
             (call (VerifyMessage (''I am requesting an AI response: '' @ ''hello'') ''sig-alice'')
                (cors sample_world ?r initial)))"
    by (rule sample_gate_alice_7) simp
  have f: "fetch sample_world (str (env_OPENAI_API_KEY sample_world)) (input ?r) = Inr ?resp"
    by simp
  have "ok ?resp" and "resp_body ?resp = Some sample_body"
    by (simp_all add: ok_def)
  from ok_body_500 [OF g f this] show ?thesis
    by (auto simp add: sample_body_def)
qed

end
